theory Spec2Isabelle
  imports Main "HOL-Library.List_Lexorder"
begin

section \<open>Python text\<close>

text \<open>
  A Python \<open>str\<close> is a sequence of Unicode code points, and the regular expressions and
  string methods of \<open>map.py\<close> classify code points (\<open>\d\<close> is every decimal digit
  of Unicode, \<open>strip\<close> removes every Unicode white space character). A code point is
  therefore a natural number and a string a list of them; \<open>length\<close> counts what Python's
  \<open>len\<close> counts.
\<close>

type_synonym uchar = nat
type_synonym str = "uchar list"

definition ascii :: "string \<Rightarrow> str" where
  "ascii s = map of_char s"

text \<open>
  The decimal digits (general category Nd) of the Unicode database 14.0.0 that CPython 3.11
  carries: each block is a run of code points whose digit values count 0 to 9 from the
  block's first code point (the one block of fifty holds five such runs).
\<close>

definition nd_blocks :: "(nat \<times> nat) list" where
  "nd_blocks =
    [(48, 57), (1632, 1641), (1776, 1785), (1984, 1993), (2406, 2415), (2534, 2543),
     (2662, 2671), (2790, 2799), (2918, 2927), (3046, 3055), (3174, 3183), (3302, 3311),
     (3430, 3439), (3558, 3567), (3664, 3673), (3792, 3801), (3872, 3881), (4160, 4169),
     (4240, 4249), (6112, 6121), (6160, 6169), (6470, 6479), (6608, 6617), (6784, 6793),
     (6800, 6809), (6992, 7001), (7088, 7097), (7232, 7241), (7248, 7257), (42528, 42537),
     (43216, 43225), (43264, 43273), (43472, 43481), (43504, 43513), (43600, 43609),
     (44016, 44025), (65296, 65305), (66720, 66729), (68912, 68921), (69734, 69743),
     (69872, 69881), (69942, 69951), (70096, 70105), (70384, 70393), (70736, 70745),
     (70864, 70873), (71248, 71257), (71360, 71369), (71472, 71481), (71904, 71913),
     (72016, 72025), (72784, 72793), (73040, 73049), (73120, 73129), (92768, 92777),
     (92864, 92873), (93008, 93017), (120782, 120831), (123200, 123209), (123632, 123641),
     (125264, 125273), (130032, 130041)]"

fun block_digit :: "(nat \<times> nat) list \<Rightarrow> uchar \<Rightarrow> nat option" where
  "block_digit [] c = None"
| "block_digit ((lo, hi) # bs) c =
     (if lo \<le> c \<and> c \<le> hi then Some ((c - lo) mod 10) else block_digit bs c)"

definition decimal_value :: "uchar \<Rightarrow> nat option" where
  "decimal_value c = block_digit nd_blocks c"

definition is_digit :: "uchar \<Rightarrow> bool" where
  "is_digit c = (decimal_value c \<noteq> None)"


text \<open>The code points for which \<open>str.isspace\<close> holds; \<open>str.strip()\<close> removes them.\<close>

definition py_isspace :: "uchar \<Rightarrow> bool" where
  "py_isspace c =
     (c \<in> set [9, 10, 11, 12, 13, 28, 29, 30, 31, 32, 133, 160, 5760, 8192, 8193, 8194,
                8195, 8196, 8197, 8198, 8199, 8200, 8201, 8202, 8232, 8233, 8239, 8287,
                12288])"

definition py_strip :: "str \<Rightarrow> str" where
  "py_strip s = rev (dropWhile py_isspace (rev (dropWhile py_isspace s)))"

text \<open>\<open>sub in s\<close> on strings: \<open>sub\<close> occurs in \<open>s\<close> as a contiguous run.\<close>

fun starts_with :: "str \<Rightarrow> str \<Rightarrow> bool" where
  "starts_with s [] = True"
| "starts_with [] (p # ps) = False"
| "starts_with (x # xs) (p # ps) = (x = p \<and> starts_with xs ps)"

fun py_in :: "str \<Rightarrow> str \<Rightarrow> bool" where
  "py_in sub [] = (sub = [])"
| "py_in sub (x # xs) = (starts_with (x # xs) sub \<or> py_in sub xs)"

text \<open>
  \<open>int(s)\<close> on a string of decimal digits. Every string that reaches \<open>int\<close> in this program
  is a capture group of \<open>\d\<close>s or what \<open>re.sub(r'[^\d]', '', _)\<close> left, so the other
  spellings \<open>int\<close> accepts (signs, white space, underscores) do not occur; an empty string
  raises \<open>ValueError\<close>. The interpreter's limit on the length of such a string
  (\<open>sys.set_int_max_str_digits\<close>, 4300 digits where it is on) is a setting of the running
  interpreter and is taken to be off.
\<close>

datatype error = OpenError | IndexError | KeyError | ValueError

definition digits_value :: "str \<Rightarrow> nat" where
  "digits_value s = foldl (\<lambda>acc c. 10 * acc + (case decimal_value c of Some d \<Rightarrow> d | None \<Rightarrow> 0)) 0 s"

definition py_int :: "str \<Rightarrow> error + int" where
  "py_int s = (if s \<noteq> [] \<and> list_all is_digit s then Inr (int (digits_value s)) else Inl ValueError)"

section \<open>The numeric normalizer\<close>

definition TRIANGLE :: uchar where "TRIANGLE = 9650"
definition PLUS :: uchar where "PLUS = 43"
definition MINUS :: uchar where "MINUS = 45"

text \<open>
  \<open>clean_numeric_value\<close> of \<open>map.py\<close>, on the text of a cell (its caller has excluded
  \<open>None\<close>). The \<open>try\<close> around \<open>int\<close> turns a \<open>ValueError\<close> into \<open>None\<close>.
\<close>

definition clean_numeric_value :: "str \<Rightarrow> int option" where
  "clean_numeric_value value_str0 =
     (if value_str0 = [] then None
      else
        let value_str1 = py_strip value_str0;
            is_negative = (TRIANGLE \<in> set value_str1 \<or> starts_with value_str1 [MINUS]);
            value_str2 = filter (\<lambda>c. c \<noteq> PLUS) value_str1;
            value_str3 = filter is_digit value_str2
        in if value_str3 = [] then None
           else (case py_int value_str3 of
                   Inl e \<Rightarrow> None
                 | Inr v \<Rightarrow> Some (if is_negative \<and> v > 0 then - v else v)))"

section \<open>Regular expressions\<close>

text \<open>
  The patterns of \<open>map.py\<close> are sequences of literal characters and capturing groups
  \<open>(\d{lo,hi})\<close>. \<open>match_here\<close> is the backtracking matcher of \<open>re\<close> anchored at the
  start of the string: a group is greedy, so it first takes \<open>hi\<close> digits and gives one back
  at a time while the rest of the pattern fails. \<open>re_search\<close> tries the start positions from
  left to right and returns the groups of the first match.
\<close>

datatype item = Lit uchar | Digits nat nat

fun first_some :: "'a option list \<Rightarrow> 'a option" where
  "first_some [] = None"
| "first_some (x # xs) = (case x of Some v \<Rightarrow> Some v | None \<Rightarrow> first_some xs)"

primrec match_here :: "item list \<Rightarrow> str \<Rightarrow> str list option" where
  "match_here [] s = Some []"
| "match_here (i # p) s =
     (case i of
        Lit c \<Rightarrow> (case s of [] \<Rightarrow> None | x # xs \<Rightarrow> if x = c then match_here p xs else None)
      | Digits lo hi \<Rightarrow>
          first_some
            (map (\<lambda>k. if k \<le> length s \<and> list_all is_digit (take k s)
                      then map_option ((#) (take k s)) (match_here p (drop k s))
                      else None)
                 (rev [lo..<Suc hi])))"

fun re_search :: "item list \<Rightarrow> str \<Rightarrow> str list option" where
  "re_search p [] = match_here p []"
| "re_search p (x # xs) =
     (case match_here p (x # xs) of Some gs \<Rightarrow> Some gs | None \<Rightarrow> re_search p xs)"

section \<open>Dates\<close>

text \<open>
  \<open>datetime(year, month, day)\<close> raises \<open>ValueError\<close> unless the year is between
  \<open>MINYEAR\<close> = 1 and \<open>MAXYEAR\<close> = 9999 and the month and day exist in that year of the
  proleptic Gregorian calendar. \<open>strftime('%Y-%m-%d')\<close> writes the year on four digits and
  the month and the day on two, zero-padded, as the documentation of \<open>datetime\<close> gives
  \<open>%Y\<close> (the C library of some platforms leaves a year below 1000 unpadded; the years of
  the documents have four digits).
\<close>

record datetime =
  dt_year :: int
  dt_month :: int
  dt_day :: int

definition is_leap :: "int \<Rightarrow> bool" where
  "is_leap y = (y mod 4 = 0 \<and> (y mod 100 \<noteq> 0 \<or> y mod 400 = 0))"

definition days_in_month :: "int \<Rightarrow> int \<Rightarrow> int" where
  "days_in_month y m =
     (if m = 2 then (if is_leap y then 29 else 28)
      else if m = 4 \<or> m = 6 \<or> m = 9 \<or> m = 11 then 30 else 31)"

definition py_datetime :: "int \<Rightarrow> int \<Rightarrow> int \<Rightarrow> error + datetime" where
  "py_datetime y m d =
     (if 1 \<le> y \<and> y \<le> 9999 \<and> 1 \<le> m \<and> m \<le> 12 \<and> 1 \<le> d \<and> d \<le> days_in_month y m
      then Inr \<lparr>dt_year = y, dt_month = m, dt_day = d\<rparr>
      else Inl ValueError)"

fun show_nat :: "nat \<Rightarrow> str" where
  "show_nat n = (if n < 10 then [48 + n] else show_nat (n div 10) @ [48 + n mod 10])"

declare show_nat.simps [simp del]

definition zero_pad :: "nat \<Rightarrow> str \<Rightarrow> str" where
  "zero_pad w s = replicate (w - length s) 48 @ s"

definition HYPHEN :: uchar where "HYPHEN = 45"

definition strftime_Ymd :: "datetime \<Rightarrow> str" where
  "strftime_Ymd d =
     zero_pad 4 (show_nat (nat (dt_year d))) @ [HYPHEN] @
     zero_pad 2 (show_nat (nat (dt_month d))) @ [HYPHEN] @
     zero_pad 2 (show_nat (nat (dt_day d)))"

text \<open>The markers of the Japanese date notation: U+5E74 (year), U+6708 (month), U+65E5 (day).\<close>

definition YEAR_MARK :: uchar where "YEAR_MARK = 24180"
definition MONTH_MARK :: uchar where "MONTH_MARK = 26376"
definition DAY_MARK :: uchar where "DAY_MARK = 26085"
definition DOT :: uchar where "DOT = 46"
definition SLASH :: uchar where "SLASH = 47"

text \<open>
  \<open>extract_date_from_cell\<close>: \<open>int\<close> of a group of \<open>\d\<close>s cannot raise, so it is the value
  of the digits; the \<open>try\<close> turns the \<open>ValueError\<close> of \<open>datetime\<close> into \<open>None\<close>.
\<close>

definition date_pattern :: "item list" where
  "date_pattern = [Digits 1 2, Lit MONTH_MARK, Digits 1 2, Lit DAY_MARK]"

definition extract_date_from_cell :: "str \<Rightarrow> int \<Rightarrow> str option" where
  "extract_date_from_cell cell_text year =
     (if cell_text = [] then None
      else (case re_search date_pattern cell_text of
              Some [g1, g2] \<Rightarrow>
                (let month = int (digits_value g1); day = int (digits_value g2)
                 in case py_datetime year month day of
                      Inr date_obj \<Rightarrow> Some (strftime_Ymd date_obj)
                    | Inl e \<Rightarrow> None)
            | _ \<Rightarrow> None))"

section \<open>Documents\<close>

text \<open>
  What \<open>pdfplumber\<close> gives: a file that cannot be opened raises; an opened file is a list
  of pages, each with its text and its tables, a table being a list of rows of optional
  strings.
\<close>

type_synonym cell = "str option"
type_synonym row = "cell list"
type_synonym grid = "row list"

record page =
  extract_text :: str
  extract_tables :: "grid list"

datatype pdf_file = Unreadable | Pdf "page list"

definition pdfplumber_open :: "pdf_file \<Rightarrow> error + page list" where
  "pdfplumber_open f = (case f of Unreadable \<Rightarrow> Inl OpenError | Pdf pages \<Rightarrow> Inr pages)"

text \<open>\<open>pdf.pages[0]\<close> raises \<open>IndexError\<close> on a document without pages.\<close>

definition first_page_of :: "pdf_file \<Rightarrow> error + page" where
  "first_page_of f =
     (case pdfplumber_open f of
        Inl e \<Rightarrow> Inl e
      | Inr pages \<Rightarrow> (case pages of [] \<Rightarrow> Inl IndexError | p # _ \<Rightarrow> Inr p))"

definition date_pattern1 :: "item list" where
  "date_pattern1 = [Digits 4 4, Lit YEAR_MARK, Digits 1 2, Lit MONTH_MARK, Digits 1 2, Lit DAY_MARK]"

definition date_pattern2 :: "item list" where
  "date_pattern2 = [Digits 4 4, Lit DOT, Digits 1 2, Lit DOT, Digits 1 2]"

definition date_pattern3 :: "item list" where
  "date_pattern3 = [Digits 4 4, Lit SLASH, Digits 1 2, Lit SLASH, Digits 1 2]"

text \<open>
  \<open>year, month, day = int(match.group(1)), ...; return datetime(year, month, day)\<close>: here
  no \<open>try\<close> surrounds \<open>datetime\<close>, so its \<open>ValueError\<close> leaves the function.
\<close>

definition datetime_of_groups :: "str list \<Rightarrow> error + datetime" where
  "datetime_of_groups gs =
     (case gs of
        [g1, g2, g3] \<Rightarrow>
          py_datetime (int (digits_value g1)) (int (digits_value g2)) (int (digits_value g3))
      | _ \<Rightarrow> Inl IndexError)"

definition search_document_date :: "str \<Rightarrow> error + datetime option" where
  "search_document_date page_text =
     (case re_search date_pattern1 page_text of
        Some gs \<Rightarrow> map_sum id Some (datetime_of_groups gs)
      | None \<Rightarrow>
         (case re_search date_pattern2 page_text of
            Some gs \<Rightarrow> map_sum id Some (datetime_of_groups gs)
          | None \<Rightarrow>
             (case re_search date_pattern3 page_text of
                Some gs \<Rightarrow> map_sum id Some (datetime_of_groups gs)
              | None \<Rightarrow> Inr None)))"

definition extract_date_from_pdf :: "pdf_file \<Rightarrow> error + datetime option" where
  "extract_date_from_pdf pdf_path =
     (case first_page_of pdf_path of
        Inl e \<Rightarrow> Inl e
      | Inr first_page \<Rightarrow> search_document_date (extract_text first_page))"

section \<open>The date resolution cascade\<close>

text \<open>
  The three strategies of \<open>extract_forecast_date_universal\<close> end in the same lines: read
  the row's cell at \<open>col_idx\<close> if the row is that long and the cell is neither \<open>None\<close>
  nor empty, and parse it. \<open>date_in_row\<close> is that body. The indices are those the
  caller takes from \<open>enumerate\<close>, natural numbers; the offsets of strategy 2 are integers.
\<close>

definition date_in_row :: "row \<Rightarrow> nat \<Rightarrow> int \<Rightarrow> str option" where
  "date_in_row r col_idx year =
     (if col_idx < length r then
        (case r ! col_idx of
           None \<Rightarrow> None
         | Some cell_text \<Rightarrow> if cell_text = [] then None else extract_date_from_cell cell_text year)
      else None)"

fun strategy2 :: "grid \<Rightarrow> nat \<Rightarrow> nat \<Rightarrow> int \<Rightarrow> int list \<Rightarrow> str option" where
  "strategy2 table header_row_idx col_idx year [] = None"
| "strategy2 table header_row_idx col_idx year (offset # offsets) =
     (let check_row_idx = int header_row_idx + offset
      in if 0 \<le> check_row_idx \<and> check_row_idx < int (length table) then
           (case date_in_row (table ! nat check_row_idx) col_idx year of
              Some d \<Rightarrow> Some d
            | None \<Rightarrow> strategy2 table header_row_idx col_idx year offsets)
         else strategy2 table header_row_idx col_idx year offsets)"

fun strategy3 :: "grid \<Rightarrow> nat \<Rightarrow> int \<Rightarrow> nat list \<Rightarrow> str option" where
  "strategy3 table col_idx year [] = None"
| "strategy3 table col_idx year (row_idx # row_idxs) =
     (if row_idx < length table then
        (case date_in_row (table ! row_idx) col_idx year of
           Some d \<Rightarrow> Some d
         | None \<Rightarrow> strategy3 table col_idx year row_idxs)
      else strategy3 table col_idx year row_idxs)"

definition extract_forecast_date_universal ::
  "grid \<Rightarrow> nat \<Rightarrow> nat \<Rightarrow> pdf_file \<Rightarrow> error + str option" where
  "extract_forecast_date_universal table header_row_idx col_idx pdf_path =
     (case extract_date_from_pdf pdf_path of
        Inl e \<Rightarrow> Inl e
      | Inr None \<Rightarrow> Inr None
      | Inr (Some doc_date) \<Rightarrow>
          (let year = dt_year doc_date
           in Inr (case (if header_row_idx < length table
                         then date_in_row (table ! header_row_idx) col_idx year else None) of
                     Some d \<Rightarrow> Some d
                   | None \<Rightarrow>
                      (case strategy2 table header_row_idx col_idx year [1, - 1, 2, - 2, 3] of
                         Some d \<Rightarrow> Some d
                       | None \<Rightarrow>
                           strategy3 table col_idx year
                             [nat (max 0 (int header_row_idx - 5))..<header_row_idx]))))"

text \<open>
  The search order in the words of the specification: the header row, the rows at the
  offsets +1, -1, +2, -2, +3, then the rows from five above the header to one above it;
  a row that does not exist gives nothing.
\<close>

definition cascade_rows :: "nat \<Rightarrow> int list" where
  "cascade_rows h =
     [int h] @ [int h + 1, int h - 1, int h + 2, int h - 2, int h + 3] @ [int h - 5..int h - 1]"

definition date_at :: "grid \<Rightarrow> nat \<Rightarrow> int \<Rightarrow> int \<Rightarrow> str option" where
  "date_at table col_idx year r =
     (if 0 \<le> r \<and> r < int (length table) then date_in_row (table ! nat r) col_idx year else None)"

definition cascade_spec :: "grid \<Rightarrow> nat \<Rightarrow> nat \<Rightarrow> int \<Rightarrow> str option" where
  "cascade_spec table h col_idx year = first_some (map (date_at table col_idx year) (cascade_rows h))"

section \<open>The intersection locator\<close>

text \<open>
  The configured keywords: the row keyword is U+8CA1 U+653F; the column keywords are
  U+5F53 U+793E U+9700 U+7D66 U+4E88 U+60F3 and its last four characters.
\<close>

definition TARGET_ROW_KEYWORDS :: "str list" where
  "TARGET_ROW_KEYWORDS = [[36001, 25919]]"

definition TARGET_COLUMN_KEYWORDS :: "str list" where
  "TARGET_COLUMN_KEYWORDS =
     [[24403, 31038, 38656, 32102, 20104, 24819], [38656, 32102, 20104, 24819]]"

text \<open>\<open>cell and any(keyword in str(cell) for keyword in keywords)\<close>\<close>

definition cell_has_keyword :: "str list \<Rightarrow> cell \<Rightarrow> bool" where
  "cell_has_keyword keywords c =
     (case c of None \<Rightarrow> False
      | Some s \<Rightarrow> s \<noteq> [] \<and> list_ex (\<lambda>keyword. py_in keyword s) keywords)"

text \<open>\<open>if row: for cell in row: if ...: (found); break\<close>\<close>

definition row_has_keyword :: "str list \<Rightarrow> row \<Rightarrow> bool" where
  "row_has_keyword keywords r = (r \<noteq> [] \<and> list_ex (cell_has_keyword keywords) r)"

text \<open>Step 1: the loop over \<open>range(min(40, len(table)))\<close> that appends to \<open>header_candidates\<close>.\<close>

fun collect_header_candidates :: "grid \<Rightarrow> nat list \<Rightarrow> (nat \<times> row) list" where
  "collect_header_candidates table [] = []"
| "collect_header_candidates table (row_idx # row_idxs) =
     (let r = table ! row_idx
      in if row_has_keyword TARGET_COLUMN_KEYWORDS r
         then (row_idx, r) # collect_header_candidates table row_idxs
         else collect_header_candidates table row_idxs)"

definition header_candidates :: "grid \<Rightarrow> (nat \<times> row) list" where
  "header_candidates table = collect_header_candidates table [0..<min 40 (length table)]"

text \<open>Step 2: the loop over \<open>enumerate(table)\<close> that stops at the first row with a row keyword.\<close>

fun find_target_row :: "(nat \<times> row) list \<Rightarrow> (nat \<times> row) option" where
  "find_target_row [] = None"
| "find_target_row ((row_idx, r) # rest) =
     (if row_has_keyword TARGET_ROW_KEYWORDS r then Some (row_idx, r) else find_target_row rest)"

text \<open>
  Step 3. \<open>try_column\<close> is the body of the inner loop at a column whose header cell has a
  column keyword; each \<open>continue\<close> of the source, and the end of the body without a
  \<open>return\<close>, is \<open>Inr None\<close>, on which \<open>scan_columns\<close> goes on with the next column of
  the same header row. An exception of the date cascade leaves the function.
\<close>

definition try_column ::
  "grid \<Rightarrow> pdf_file \<Rightarrow> nat \<Rightarrow> row \<Rightarrow> nat \<Rightarrow> error + (int \<times> str) option" where
  "try_column table pdf_path header_idx target_row col_idx =
     (if col_idx < length target_row then
        (case target_row ! col_idx of
           None \<Rightarrow> Inr None
         | Some value_cell \<Rightarrow>
             if py_strip value_cell = [] then Inr None
             else (case clean_numeric_value value_cell of
                     None \<Rightarrow> Inr None
                   | Some v \<Rightarrow>
                       (case extract_forecast_date_universal table header_idx col_idx pdf_path of
                          Inl e \<Rightarrow> Inl e
                        | Inr None \<Rightarrow> Inr None
                        | Inr (Some date_str) \<Rightarrow> Inr (Some (v, date_str)))))
      else Inr None)"

fun scan_columns ::
  "grid \<Rightarrow> pdf_file \<Rightarrow> nat \<Rightarrow> row \<Rightarrow> (nat \<times> cell) list \<Rightarrow> error + (int \<times> str) option" where
  "scan_columns table pdf_path header_idx target_row [] = Inr None"
| "scan_columns table pdf_path header_idx target_row ((col_idx, c) # rest) =
     (if cell_has_keyword TARGET_COLUMN_KEYWORDS c then
        (case try_column table pdf_path header_idx target_row col_idx of
           Inl e \<Rightarrow> Inl e
         | Inr (Some found) \<Rightarrow> Inr (Some found)
         | Inr None \<Rightarrow> scan_columns table pdf_path header_idx target_row rest)
      else scan_columns table pdf_path header_idx target_row rest)"

fun scan_headers ::
  "grid \<Rightarrow> pdf_file \<Rightarrow> nat \<Rightarrow> row \<Rightarrow> (nat \<times> row) list \<Rightarrow> error + (int \<times> str) option" where
  "scan_headers table pdf_path target_row_idx target_row [] = Inr None"
| "scan_headers table pdf_path target_row_idx target_row ((header_idx, header_row) # rest) =
     (if header_idx \<ge> target_row_idx
      then scan_headers table pdf_path target_row_idx target_row rest
      else (case scan_columns table pdf_path header_idx target_row (List.enumerate 0 header_row) of
              Inl e \<Rightarrow> Inl e
            | Inr (Some found) \<Rightarrow> Inr (Some found)
            | Inr None \<Rightarrow> scan_headers table pdf_path target_row_idx target_row rest))"

text \<open>The body of the loop over the tables of the first page.\<close>

definition search_table :: "grid \<Rightarrow> pdf_file \<Rightarrow> error + (int \<times> str) option" where
  "search_table table pdf_path =
     (if table = [] \<or> length table < 2 then Inr None
      else (case find_target_row (List.enumerate 0 table) of
              None \<Rightarrow> Inr None
            | Some (target_row_idx, target_row) \<Rightarrow>
                if target_row = [] then Inr None
                else scan_headers table pdf_path target_row_idx target_row (header_candidates table)))"

fun search_tables :: "grid list \<Rightarrow> pdf_file \<Rightarrow> error + (int \<times> str) option" where
  "search_tables [] pdf_path = Inr None"
| "search_tables (table # tables) pdf_path =
     (case search_table table pdf_path of
        Inl e \<Rightarrow> Inl e
      | Inr (Some found) \<Rightarrow> Inr (Some found)
      | Inr None \<Rightarrow> search_tables tables pdf_path)"

text \<open>The function returns the pair \<open>(value, date_str)\<close> or \<open>(None, None)\<close>.\<close>

definition find_fiscal_forecast_value :: "pdf_file \<Rightarrow> error + (int option \<times> str option)" where
  "find_fiscal_forecast_value pdf_path =
     (case first_page_of pdf_path of
        Inl e \<Rightarrow> Inl e
      | Inr first_page \<Rightarrow>
          (case search_tables (extract_tables first_page) pdf_path of
             Inl e \<Rightarrow> Inl e
           | Inr (Some (v, date_str)) \<Rightarrow> Inr (Some v, Some date_str)
           | Inr None \<Rightarrow> Inr (None, None)))"

text \<open>
  The locator in the words of the specification: the header rows are the rows among the
  first 40 with a column keyword, the data row is the first row of the grid with a row
  keyword, and the header rows above the data row are tried in order.
\<close>

fun first_result :: "(error + 'a option) list \<Rightarrow> error + 'a option" where
  "first_result [] = Inr None"
| "first_result (x # xs) =
     (case x of Inl e \<Rightarrow> Inl e | Inr (Some v) \<Rightarrow> Inr (Some v) | Inr None \<Rightarrow> first_result xs)"

definition header_rows_spec :: "grid \<Rightarrow> nat list" where
  "header_rows_spec table =
     filter (\<lambda>i. row_has_keyword TARGET_COLUMN_KEYWORDS (table ! i)) [0..<min 40 (length table)]"

definition data_row_spec :: "grid \<Rightarrow> nat option" where
  "data_row_spec table =
     find (\<lambda>i. row_has_keyword TARGET_ROW_KEYWORDS (table ! i)) [0..<length table]"

definition locator_spec :: "grid \<Rightarrow> pdf_file \<Rightarrow> error + (int \<times> str) option" where
  "locator_spec table pdf_path =
     (case data_row_spec table of
        None \<Rightarrow> Inr None
      | Some d \<Rightarrow>
          first_result
            (map (\<lambda>h. scan_columns table pdf_path h (table ! d) (List.enumerate 0 (table ! h)))
                 (filter (\<lambda>h. h < d) (header_rows_spec table))))"

text \<open>
  The columns of one header row, in two readings: every column whose header cell has a
  column keyword, tried from left to right; and the first such column alone.
\<close>

definition metric_columns :: "row \<Rightarrow> nat list" where
  "metric_columns header_row =
     filter (\<lambda>col_idx. cell_has_keyword TARGET_COLUMN_KEYWORDS (header_row ! col_idx))
       [0..<length header_row]"

definition all_metric_columns ::
  "grid \<Rightarrow> pdf_file \<Rightarrow> nat \<Rightarrow> row \<Rightarrow> row \<Rightarrow> error + (int \<times> str) option" where
  "all_metric_columns table pdf_path header_idx target_row header_row =
     first_result (map (try_column table pdf_path header_idx target_row) (metric_columns header_row))"

definition first_metric_column_only ::
  "grid \<Rightarrow> pdf_file \<Rightarrow> nat \<Rightarrow> row \<Rightarrow> row \<Rightarrow> error + (int \<times> str) option" where
  "first_metric_column_only table pdf_path header_idx target_row header_row =
     (case metric_columns header_row of
        [] \<Rightarrow> Inr None
      | col_idx # _ \<Rightarrow> try_column table pdf_path header_idx target_row col_idx)"

section \<open>Records and batch output\<close>

definition HEADER_1 :: str where
  "HEADER_1 = ascii ''UYTCAB.DEMANDFORECAST.CHANGECURRBAL.JPN.B''"

definition HEADER_2 :: str where
  "HEADER_2 = ascii ''Supply and demand forecast: Change in current account balance''"

text \<open>A value of the result dictionary is a string (the date) or an integer (the value).\<close>

datatype pyval = PyStr str | PyInt int

type_synonym mapped = "(str \<times> pyval) list"

definition create_mapped_data :: "pdf_file \<Rightarrow> error + mapped option" where
  "create_mapped_data pdf_path =
     (case find_fiscal_forecast_value pdf_path of
        Inl e \<Rightarrow> Inl e
      | Inr (value, forecast_date) \<Rightarrow>
          (case value of
             None \<Rightarrow> Inr None
           | Some v \<Rightarrow>
               (case forecast_date of
                  None \<Rightarrow> Inr None
                | Some d \<Rightarrow> Inr (Some [(HEADER_1, PyStr d), (HEADER_2, PyInt v)]))))"

text \<open>
  A folder is the list of its entries, name and file. \<open>process_multiple_pdfs\<close> takes the
  names that end in \<open>.pdf\<close>, sorted, and opens each through its path.
\<close>

type_synonym folder = "(str \<times> pdf_file) list"

definition ends_with :: "str \<Rightarrow> str \<Rightarrow> bool" where
  "ends_with s suffix = starts_with (rev s) (rev suffix)"

definition pdf_files :: "folder \<Rightarrow> str list" where
  "pdf_files pdf_folder = sort (filter (\<lambda>f. ends_with f (ascii ''.pdf'')) (map fst pdf_folder))"

definition open_path :: "folder \<Rightarrow> str \<Rightarrow> pdf_file" where
  "open_path pdf_folder pdf_file =
     (case map_of pdf_folder pdf_file of None \<Rightarrow> Unreadable | Some f \<Rightarrow> f)"

text \<open>
  The loop over \<open>pdf_files\<close>: nothing catches an exception of \<open>create_mapped_data\<close>, so
  it ends the loop and the function.
\<close>

fun batch_loop :: "folder \<Rightarrow> str list \<Rightarrow> mapped list \<Rightarrow> error + mapped list" where
  "batch_loop pdf_folder [] all_data = Inr all_data"
| "batch_loop pdf_folder (pdf_file # rest) all_data =
     (case create_mapped_data (open_path pdf_folder pdf_file) of
        Inl e \<Rightarrow> Inl e
      | Inr None \<Rightarrow> batch_loop pdf_folder rest all_data
      | Inr (Some data) \<Rightarrow> batch_loop pdf_folder rest (all_data @ [data]))"

definition COMMA :: uchar where "COMMA = 44"
definition NEWLINE :: uchar where "NEWLINE = 10"

definition show_int :: "int \<Rightarrow> str" where
  "show_int i = (if i < 0 then MINUS # show_nat (nat (- i)) else show_nat (nat i))"

definition py_format :: "pyval \<Rightarrow> str" where
  "py_format v = (case v of PyStr s \<Rightarrow> s | PyInt i \<Rightarrow> show_int i)"

text \<open>
  \<open>save_custom_csv\<close>: the file is what the successive \<open>f.write\<close> calls have appended,
  as text (the text-mode file object may store each \<open>\n\<close> as the line ending of the
  platform); \<open>row[HEADER_1]\<close> on a row without that key raises \<open>KeyError\<close>.
\<close>

fun write_rows :: "str \<Rightarrow> mapped list \<Rightarrow> error + str" where
  "write_rows f [] = Inr f"
| "write_rows f (r # rest) =
     (case map_of r HEADER_1 of
        None \<Rightarrow> Inl KeyError
      | Some date_value \<Rightarrow>
          (case map_of r HEADER_2 of
             None \<Rightarrow> Inl KeyError
           | Some numeric_value \<Rightarrow>
               write_rows
                 (f @ py_format date_value @ [COMMA] @ py_format numeric_value @ [NEWLINE]) rest))"

definition save_custom_csv :: "mapped list \<Rightarrow> error + str" where
  "save_custom_csv df =
     write_rows (([COMMA] @ HEADER_1 @ [NEWLINE]) @ ([COMMA] @ HEADER_2 @ [NEWLINE])) df"

text \<open>
  \<open>process_multiple_pdfs\<close> returns the data frame and, here, the file it has written, if
  any: the file is written only when some document gave data and \<open>if output_csv:\<close> holds,
  that is, the path is neither \<open>None\<close> nor the empty string.
\<close>

definition process_multiple_pdfs ::
  "folder \<Rightarrow> str option \<Rightarrow> error + (mapped list \<times> (str \<times> str) option)" where
  "process_multiple_pdfs pdf_folder output_csv =
     (case batch_loop pdf_folder (pdf_files pdf_folder) [] of
        Inl e \<Rightarrow> Inl e
      | Inr all_data \<Rightarrow>
          if all_data \<noteq> [] then
            (case output_csv of
               None \<Rightarrow> Inr (all_data, None)
             | Some path \<Rightarrow>
                 if path = [] then Inr (all_data, None)
                 else (case save_custom_csv all_data of
                         Inl e \<Rightarrow> Inl e
                       | Inr content \<Rightarrow> Inr (all_data, Some (path, content))))
          else Inr ([], None))"

text \<open>The outcomes of the documents of a batch, and the data of those that gave data.\<close>

definition outcomes :: "folder \<Rightarrow> str list \<Rightarrow> (error + mapped option) list" where
  "outcomes pdf_folder names = map (\<lambda>n. create_mapped_data (open_path pdf_folder n)) names"

definition data_of :: "(error + mapped option) list \<Rightarrow> mapped list" where
  "data_of os = List.map_filter (\<lambda>x. case x of Inr (Some d) \<Rightarrow> Some d | _ \<Rightarrow> None) os"

definition first_error :: "(error + mapped option) list \<Rightarrow> error option" where
  "first_error os = (case filter isl os of [] \<Rightarrow> None | x # _ \<Rightarrow> Some (projl x))"

text \<open>
  The layout of the output file in the words of the specification: two label lines, each
  a comma followed by a label, then one line per record, the date, a comma and the value.
\<close>

definition record_of :: "str \<times> int \<Rightarrow> mapped" where
  "record_of r = [(HEADER_1, PyStr (fst r)), (HEADER_2, PyInt (snd r))]"

definition label_lines :: str where
  "label_lines = [COMMA] @ HEADER_1 @ [NEWLINE] @ [COMMA] @ HEADER_2 @ [NEWLINE]"

definition data_line :: "str \<times> int \<Rightarrow> str" where
  "data_line r = fst r @ [COMMA] @ show_int (snd r) @ [NEWLINE]"

section \<open>Example documents\<close>

text \<open>
  The cells of the end-to-end scenario of the specification: the column keyword, the row
  keyword, the value \<open>-1,234\<close> written with the triangle U+25B2, the date "10 (month) 3
  (day)", and a page text carrying the date "2024 (year) 10 (month) 1 (day)".
\<close>

definition cell_metric :: str where
  "cell_metric = [24403, 31038, 38656, 32102, 20104, 24819]"

definition cell_subject :: str where
  "cell_subject = [36001, 25919]"

definition cell_value :: str where
  "cell_value = [9650, 49, 44, 50, 51, 52]"

definition cell_oct3 :: str where
  "cell_oct3 = [49, 48, 26376, 51, 26085]"

definition cell_sep1 :: str where
  "cell_sep1 = [57, 26376, 49, 26085]"

definition text_2024_10_01 :: str where
  "text_2024_10_01 = [50, 48, 50, 52, 24180, 49, 48, 26376, 49, 26085]"

definition scenario_grid :: grid where
  "scenario_grid =
     [[Some [120], Some cell_metric, Some [121]],
      [Some cell_subject, Some cell_value, Some [122]],
      [Some [], Some cell_oct3, Some []]]"

definition scenario_doc :: pdf_file where
  "scenario_doc = Pdf [\<lparr>extract_text = text_2024_10_01, extract_tables = [scenario_grid]\<rparr>]"

text \<open>The same table without its row of dates: the value is found, no cell holds a date.\<close>

definition undated_grid :: grid where
  "undated_grid =
     [[Some [120], Some cell_metric, Some [121]],
      [Some cell_subject, Some cell_value, Some [122]]]"

definition undated_doc :: pdf_file where
  "undated_doc = Pdf [\<lparr>extract_text = text_2024_10_01, extract_tables = [undated_grid]\<rparr>]"

text \<open>The scenario's table in a document whose page text holds no date.\<close>

definition dateless_doc :: pdf_file where
  "dateless_doc = Pdf [\<lparr>extract_text = [110, 111], extract_tables = [scenario_grid]\<rparr>]"

text \<open>
  A header row with two cells that have a column keyword: under the first the data row
  holds the row keyword itself, under the second the number 5; the second header cell
  also carries the date.
\<close>

definition cell_metric_dated :: str where
  "cell_metric_dated = [38656, 32102, 20104, 24819, 49, 48, 26376, 51, 26085]"

definition two_column_grid :: grid where
  "two_column_grid =
     [[Some cell_metric, Some cell_metric_dated],
      [Some cell_subject, Some [53]]]"

definition two_column_doc :: pdf_file where
  "two_column_doc = Pdf [\<lparr>extract_text = text_2024_10_01, extract_tables = [two_column_grid]\<rparr>]"

text \<open>A column with a date one row above the header and another one row below it.\<close>

definition priority_grid :: grid where
  "priority_grid = [[Some cell_sep1], [Some cell_metric], [Some cell_oct3]]"

text \<open>Two batches: a success with a not-found document, and a success with a file that cannot be opened.\<close>

definition name_a :: str where "name_a = [97, 46, 112, 100, 102]"
definition name_b :: str where "name_b = [98, 46, 112, 100, 102]"

definition mixed_folder :: folder where
  "mixed_folder = [(name_b, undated_doc), (name_a, scenario_doc)]"

definition broken_folder :: folder where
  "broken_folder = [(name_a, scenario_doc), (name_b, Unreadable)]"

definition scenario_record :: mapped where
  "scenario_record =
     [(HEADER_1, PyStr [50, 48, 50, 52, 45, 49, 48, 45, 48, 51]), (HEADER_2, PyInt (- 1234))]"

section \<open>Evaluation on concrete inputs\<close>

text \<open>
  The classification of a code point is unfolded only at a numeral, so that the rules
  evaluate closed terms and leave terms with variables alone.
\<close>

lemma block_digit_None_iff:
  "block_digit bs c = None \<longleftrightarrow> \<not> list_ex (\<lambda>(lo, hi). lo \<le> c \<and> c \<le> hi) bs"
  by (induction bs) (auto split: if_splits)

lemma is_digit_list_ex: "is_digit c = list_ex (\<lambda>(lo, hi). lo \<le> c \<and> c \<le> hi) nd_blocks"
  by (simp add: is_digit_def decimal_value_def block_digit_None_iff)

lemmas is_digit_ranges = is_digit_list_ex [unfolded nd_blocks_def list_ex_Cons_iff list_ex_Nil_iff prod.case simp_thms]

lemma decimal_value_numeral:
  "decimal_value (numeral k) = block_digit nd_blocks (numeral k)"
  by (simp add: decimal_value_def)

lemma py_isspace_numeral:
  "py_isspace (numeral k) =
     (numeral k \<in> set [9, 10, 11, 12, 13, 28, 29, 30, 31, 32, 133, 160, 5760, 8192, 8193,
        8194, 8195, 8196, 8197, 8198, 8199, 8200, 8201, 8202, 8232, 8233, 8239, 8287,
        12288 :: nat])"
  by (simp only: py_isspace_def)

lemma show_nat_numeral:
  "show_nat (numeral k) =
     (if numeral k < (10::nat) then [48 + numeral k]
      else show_nat (numeral k div 10) @ [48 + numeral k mod 10])"
  by (rule show_nat.simps)

lemma show_nat_Suc_0: "show_nat (Suc 0) = [49]"
  by (simp add: show_nat.simps)

lemma show_nat_0: "show_nat 0 = [48]"
  by (simp add: show_nat.simps)

lemmas char_eval =
  is_digit_ranges decimal_value_numeral py_isspace_numeral nd_blocks_def
  MONTH_MARK_def DAY_MARK_def YEAR_MARK_def DOT_def SLASH_def HYPHEN_def
  TRIANGLE_def PLUS_def MINUS_def COMMA_def NEWLINE_def

lemmas date_eval =
  upt_rec digits_value_def py_datetime_def days_in_month_def is_leap_def strftime_Ymd_def
  zero_pad_def show_nat_numeral show_nat_Suc_0 show_nat_0

lemma cell_oct3_date:
  "extract_date_from_cell cell_oct3 2024 = Some [50, 48, 50, 52, 45, 49, 48, 45, 48, 51]"
  by (simp add: extract_date_from_cell_def date_pattern_def cell_oct3_def char_eval date_eval)

lemma cell_sep1_date:
  "extract_date_from_cell cell_sep1 2024 = Some [50, 48, 50, 52, 45, 48, 57, 45, 48, 49]"
  by (simp add: extract_date_from_cell_def date_pattern_def cell_sep1_def char_eval date_eval)

lemma cell_metric_date: "extract_date_from_cell cell_metric y = None"
  by (simp add: extract_date_from_cell_def date_pattern_def cell_metric_def char_eval date_eval)

lemma cell_subject_date: "extract_date_from_cell cell_subject y = None"
  by (simp add: extract_date_from_cell_def date_pattern_def cell_subject_def char_eval date_eval)

lemma cell_value_date: "extract_date_from_cell cell_value y = None"
  by (simp add: extract_date_from_cell_def date_pattern_def cell_value_def char_eval date_eval)

lemma cell_letter_date: "extract_date_from_cell [numeral k] y = None"
  by (simp add: extract_date_from_cell_def date_pattern_def char_eval date_eval)

lemma example_cells_nonempty:
  "cell_oct3 \<noteq> []" "cell_sep1 \<noteq> []" "cell_metric \<noteq> []" "cell_subject \<noteq> []"
  "cell_value \<noteq> []" "cell_metric_dated \<noteq> []"
  by (simp_all add: cell_oct3_def cell_sep1_def cell_metric_def cell_subject_def cell_value_def
      cell_metric_dated_def)

lemma text_2024_10_01_date:
  "search_document_date text_2024_10_01 = Inr (Some \<lparr>dt_year = 2024, dt_month = 10, dt_day = 1\<rparr>)"
  by (simp add: search_document_date_def datetime_of_groups_def date_pattern1_def
      text_2024_10_01_def char_eval date_eval)

lemma scenario_doc_date:
  "extract_date_from_pdf scenario_doc = Inr (Some \<lparr>dt_year = 2024, dt_month = 10, dt_day = 1\<rparr>)"
  by (simp add: extract_date_from_pdf_def first_page_of_def pdfplumber_open_def scenario_doc_def
      text_2024_10_01_date)

lemma undated_doc_date:
  "extract_date_from_pdf undated_doc = Inr (Some \<lparr>dt_year = 2024, dt_month = 10, dt_day = 1\<rparr>)"
  by (simp add: extract_date_from_pdf_def first_page_of_def pdfplumber_open_def undated_doc_def
      text_2024_10_01_date)

lemma two_column_doc_date:
  "extract_date_from_pdf two_column_doc = Inr (Some \<lparr>dt_year = 2024, dt_month = 10, dt_day = 1\<rparr>)"
  by (simp add: extract_date_from_pdf_def first_page_of_def pdfplumber_open_def two_column_doc_def
      text_2024_10_01_date)

lemma dateless_doc_date: "extract_date_from_pdf dateless_doc = Inr None"
  by (simp add: extract_date_from_pdf_def first_page_of_def pdfplumber_open_def dateless_doc_def
      search_document_date_def date_pattern1_def date_pattern2_def date_pattern3_def
      char_eval date_eval)

section \<open>Properties of the date resolution cascade\<close>

lemma first_some_append:
  "first_some (xs @ ys) = (case first_some xs of Some v \<Rightarrow> Some v | None \<Rightarrow> first_some ys)"
  by (induction xs) (auto split: option.splits)

lemma first_some_all_None:
  "(\<And>x. x \<in> set xs \<Longrightarrow> f x = None) \<Longrightarrow> first_some (map f xs) = None"
  by (induction xs) auto

lemma strategy2_first_some:
  "strategy2 t h c y offs = first_some (map (\<lambda>off. date_at t c y (int h + off)) offs)"
  by (induction offs) (auto simp: date_at_def Let_def split: option.splits)

lemma strategy3_first_some:
  "strategy3 t c y rs = first_some (map (\<lambda>r. date_at t c y (int r)) rs)"
  by (induction rs) (auto simp: date_at_def split: option.splits)

lemma map_int_upt: "map int [m..<n] = [int m..int n - 1]"
proof (induction n)
  case 0
  then show ?case by simp
next
  case (Suc n)
  show ?case
  proof (cases "m \<le> n")
    case True
    have "[int m..int (Suc n) - 1] = [int m..int n - 1] @ [int n]"
      using True upto_rec2 [of "int m" "int n"] by simp
    with Suc True show ?thesis by simp
  next
    case False
    then show ?thesis by simp
  qed
qed

lemma rows_above:
  "first_some (map (date_at t c y) [int h - 5..int h - 1]) =
   first_some (map (\<lambda>r. date_at t c y (int r)) [nat (max 0 (int h - 5))..<h])"
proof (cases "5 \<le> h")
  case True
  then have "[int h - 5..int h - 1] = map int [nat (max 0 (int h - 5))..<h]"
    by (simp add: map_int_upt)
  then show ?thesis by (simp add: comp_def)
next
  case False
  have neg: "first_some (map (date_at t c y) [int h - 5..- 1]) = None"
    by (rule first_some_all_None) (simp add: date_at_def)
  have split: "[int h - 5..int h - 1] = [int h - 5..- 1] @ [0..int h - 1]"
    using False upto_split1 [of "int h - 5" 0 "int h - 1"] by (cases "h = 0") auto
  have "[0..int h - 1] = map int [nat (max 0 (int h - 5))..<h]"
    using False map_int_upt [of 0 h] by simp
  then show ?thesis
    by (simp add: split first_some_append neg comp_def)
qed

lemma cascade_refines_spec:
  "extract_forecast_date_universal table h c pdf =
     (case extract_date_from_pdf pdf of
        Inl e \<Rightarrow> Inl e
      | Inr None \<Rightarrow> Inr None
      | Inr (Some doc_date) \<Rightarrow> Inr (cascade_spec table h c (dt_year doc_date)))"
proof -
  have hdr: "(if h < length table then date_in_row (table ! h) c y else None) =
             date_at table c y (int h)" for y
    by (simp add: date_at_def)
  show ?thesis
    unfolding extract_forecast_date_universal_def cascade_spec_def cascade_rows_def Let_def hdr
      strategy2_first_some strategy3_first_some
    by (simp add: first_some_append rows_above split: sum.splits option.splits)
qed

text \<open>
  C1. The cascade consults the header cell, then the rows at the offsets +1, -1, +2, -2,
  +3, then the rows from five above the header to one above it in ascending order, all at
  the same column, and returns the first date that parses; it returns nothing if none
  does. (The cascade runs with the year of the document date; without one it stops before,
  with nothing or with the exception of the document-date resolver.)
\<close>

theorem cascade_priority_order:
  "extract_forecast_date_universal table h c pdf =
     (case extract_date_from_pdf pdf of
        Inl e \<Rightarrow> Inl e
      | Inr None \<Rightarrow> Inr None
      | Inr (Some doc_date) \<Rightarrow>
          Inr (first_some
                 (map (date_at table c (dt_year doc_date))
                    ([int h] @ [int h + 1, int h - 1, int h + 2, int h - 2, int h + 3] @
                     [int h - 5..int h - 1]))))"
  unfolding cascade_refines_spec cascade_spec_def cascade_rows_def ..

theorem cascade_priority_order_witness:
  "date_at priority_grid 0 2024 0 = Some [50, 48, 50, 52, 45, 48, 57, 45, 48, 49] \<and>
   date_at priority_grid 0 2024 2 = Some [50, 48, 50, 52, 45, 49, 48, 45, 48, 51] \<and>
   extract_forecast_date_universal priority_grid 1 0 scenario_doc =
     Inr (Some [50, 48, 50, 52, 45, 49, 48, 45, 48, 51])"
proof -
  have r0: "date_at priority_grid 0 2024 0 = Some [50, 48, 50, 52, 45, 48, 57, 45, 48, 49]"
    by (simp add: date_at_def date_in_row_def priority_grid_def cell_sep1_date example_cells_nonempty)
  have r1: "date_at priority_grid 0 2024 1 = None"
    by (simp add: date_at_def date_in_row_def priority_grid_def cell_metric_date example_cells_nonempty)
  have r2: "date_at priority_grid 0 2024 2 = Some [50, 48, 50, 52, 45, 49, 48, 45, 48, 51]"
    by (simp add: date_at_def date_in_row_def priority_grid_def cell_oct3_date example_cells_nonempty)
  show ?thesis
    using cascade_priority_order [of priority_grid 1 0 scenario_doc]
    by (simp add: scenario_doc_date r0 r1 r2)
qed

text \<open>
  C10. When the document-date resolver finds no date in the document, the cascade returns
  nothing whatever the grid holds, since the reference year comes from the document date
  alone.
\<close>

theorem cascade_without_document_date:
  "extract_date_from_pdf pdf = Inr None \<Longrightarrow>
   extract_forecast_date_universal table h c pdf = Inr None"
  by (simp add: extract_forecast_date_universal_def)

theorem cascade_without_document_date_witness:
  "extract_date_from_pdf dateless_doc = Inr None \<and>
   date_in_row (scenario_grid ! 2) 1 2024 = Some [50, 48, 50, 52, 45, 49, 48, 45, 48, 51] \<and>
   extract_forecast_date_universal scenario_grid 2 1 dateless_doc = Inr None"
  using cascade_without_document_date [of dateless_doc scenario_grid 2 1]
  by (simp add: dateless_doc_date date_in_row_def scenario_grid_def cell_oct3_date example_cells_nonempty)

section \<open>Properties of the numeric normalizer\<close>

lemma space_not_digit:
  assumes "py_isspace c"
  shows "\<not> is_digit c"
proof -
  have "\<forall>x \<in> set [9, 10, 11, 12, 13, 28, 29, 30, 31, 32, 133, 160, 5760, 8192, 8193, 8194,
          8195, 8196, 8197, 8198, 8199, 8200, 8201, 8202, 8232, 8233, 8239, 8287, 12288 :: nat].
          \<not> is_digit x"
    by (simp add: char_eval)
  from this assms [unfolded py_isspace_def] show ?thesis by (rule bspec)
qed

lemma plus_not_digit: "\<not> is_digit PLUS"
  by (simp add: PLUS_def char_eval)

lemma triangle_not_space: "\<not> py_isspace TRIANGLE"
  by (simp add: TRIANGLE_def char_eval)

lemma filter_dropWhile:
  "(\<And>x. Q x \<Longrightarrow> \<not> P x) \<Longrightarrow> filter P (dropWhile Q xs) = filter P xs"
  by (induction xs) auto

lemma filter_py_strip:
  "(\<And>x. py_isspace x \<Longrightarrow> \<not> P x) \<Longrightarrow> filter P (py_strip s) = filter P s"
proof -
  assume a: "\<And>x. py_isspace x \<Longrightarrow> \<not> P x"
  have "filter P (py_strip s) = rev (filter P (dropWhile py_isspace (rev (dropWhile py_isspace s))))"
    by (simp add: py_strip_def rev_filter)
  also have "\<dots> = rev (filter P (rev (dropWhile py_isspace s)))"
    using a by (simp add: filter_dropWhile)
  also have "\<dots> = filter P (dropWhile py_isspace s)"
    by (simp add: rev_filter)
  also have "\<dots> = filter P s"
    using a by (simp add: filter_dropWhile)
  finally show ?thesis .
qed

lemma mem_iff_filter: "x \<in> set xs \<longleftrightarrow> filter (\<lambda>c. c = x) xs \<noteq> []"
  by (induction xs) auto

lemma triangle_in_strip: "TRIANGLE \<in> set (py_strip s) \<longleftrightarrow> TRIANGLE \<in> set s"
proof -
  have ns: "\<not> (x = TRIANGLE)" if "py_isspace x" for x
    using that triangle_not_space by blast
  have "filter (\<lambda>c. c = TRIANGLE) (py_strip s) = filter (\<lambda>c. c = TRIANGLE) s"
    using ns by (rule filter_py_strip [of "\<lambda>c. c = TRIANGLE"])
  then show ?thesis by (simp only: mem_iff_filter)
qed

lemma digits_of_strip:
  "filter is_digit (filter (\<lambda>c. c \<noteq> PLUS) (py_strip s)) = filter is_digit s"
proof -
  have "filter is_digit (filter (\<lambda>c. c \<noteq> PLUS) (py_strip s)) = filter is_digit (py_strip s)"
    by (auto simp: plus_not_digit intro!: filter_cong)
  also have "\<dots> = filter is_digit s"
    by (rule filter_py_strip) (rule space_not_digit)
  finally show ?thesis .
qed

lemma clean_numeric_value_eq:
  "clean_numeric_value s =
     (if filter is_digit s = [] then None
      else Some (if (TRIANGLE \<in> set s \<or> starts_with (py_strip s) [MINUS]) \<and>
                    0 < digits_value (filter is_digit s)
                 then - int (digits_value (filter is_digit s))
                 else int (digits_value (filter is_digit s))))"
proof (cases "filter is_digit s = []")
  case True
  then show ?thesis
    unfolding clean_numeric_value_def Let_def digits_of_strip by simp
next
  case False
  then have ne: "s \<noteq> []" by auto
  have int: "py_int (filter is_digit s) = Inr (int (digits_value (filter is_digit s)))"
    using False by (simp add: py_int_def list_all_iff)
  show ?thesis
    unfolding clean_numeric_value_def Let_def digits_of_strip triangle_in_strip
    using False ne by (simp add: int)
qed





section \<open>Properties of the cell-date resolver\<close>












section \<open>Properties of the intersection locator\<close>

lemma enumerate_nth: "List.enumerate 0 xs = map (\<lambda>i. (i, xs ! i)) [0..<length xs]"
  by (rule nth_equalityI) (simp_all add: nth_enumerate_eq)

lemma collect_header_candidates_filter:
  "collect_header_candidates table idxs =
     map (\<lambda>i. (i, table ! i)) (filter (\<lambda>i. row_has_keyword TARGET_COLUMN_KEYWORDS (table ! i)) idxs)"
  by (induction idxs) (simp_all add: Let_def)

lemma header_candidates_spec:
  "header_candidates table = map (\<lambda>i. (i, table ! i)) (header_rows_spec table)"
  by (simp add: header_candidates_def header_rows_spec_def collect_header_candidates_filter)

lemma find_target_row_find:
  "find_target_row (map (\<lambda>i. (i, table ! i)) idxs) =
     map_option (\<lambda>i. (i, table ! i)) (find (\<lambda>i. row_has_keyword TARGET_ROW_KEYWORDS (table ! i)) idxs)"
  by (induction idxs) simp_all

lemma find_target_row_spec:
  "find_target_row (List.enumerate 0 table) = map_option (\<lambda>i. (i, table ! i)) (data_row_spec table)"
  by (simp add: enumerate_nth find_target_row_find data_row_spec_def)

lemma scan_headers_first_result:
  "scan_headers table pdf d target_row (map (\<lambda>h. (h, table ! h)) hs) =
     first_result
       (map (\<lambda>h. scan_columns table pdf h target_row (List.enumerate 0 (table ! h)))
          (filter (\<lambda>h. h < d) hs))"
  by (induction hs) (auto split: sum.splits option.splits)

lemma data_row_spec_Some:
  "data_row_spec table = Some d \<Longrightarrow>
     d < length table \<and> row_has_keyword TARGET_ROW_KEYWORDS (table ! d)"
  by (auto simp: data_row_spec_def find_Some_iff)

lemma search_table_refines_spec: "search_table table pdf = locator_spec table pdf"
proof (cases "data_row_spec table")
  case None
  then show ?thesis
    by (simp add: search_table_def locator_spec_def find_target_row_spec)
next
  case (Some d)
  from data_row_spec_Some [OF Some]
  have d: "d < length table" and kw: "row_has_keyword TARGET_ROW_KEYWORDS (table ! d)"
    by simp_all
  from kw have ne: "table ! d \<noteq> []"
    by (simp add: row_has_keyword_def)
  show ?thesis
  proof (cases "length table < 2")
    case True
    with d have "d = 0" by simp
    with True Some d show ?thesis
      by (simp add: search_table_def locator_spec_def)
  next
    case False
    then have "table \<noteq> []" by auto
    with False Some ne show ?thesis
      by (simp add: search_table_def locator_spec_def find_target_row_spec
          header_candidates_spec scan_headers_first_result)
  qed
qed

lemma scan_columns_first_result:
  "scan_columns table pdf h target_row (map (\<lambda>i. (i, header_row ! i)) idxs) =
     first_result
       (map (try_column table pdf h target_row)
          (filter (\<lambda>i. cell_has_keyword TARGET_COLUMN_KEYWORDS (header_row ! i)) idxs))"
  by (induction idxs) (auto split: sum.splits option.splits)

lemma scan_columns_all_metric_columns:
  "scan_columns table pdf h target_row (List.enumerate 0 header_row) =
     all_metric_columns table pdf h target_row header_row"
  by (simp add: enumerate_nth scan_columns_first_result all_metric_columns_def metric_columns_def)

section \<open>The example documents, evaluated\<close>

lemma column_keyword_cells:
  "cell_has_keyword TARGET_COLUMN_KEYWORDS (Some cell_metric)"
  "cell_has_keyword TARGET_COLUMN_KEYWORDS (Some cell_metric_dated)"
  "\<not> cell_has_keyword TARGET_COLUMN_KEYWORDS (Some cell_subject)"
  "\<not> cell_has_keyword TARGET_COLUMN_KEYWORDS (Some cell_value)"
  "\<not> cell_has_keyword TARGET_COLUMN_KEYWORDS (Some cell_oct3)"
  "\<not> cell_has_keyword TARGET_COLUMN_KEYWORDS (Some [c])"
  "\<not> cell_has_keyword TARGET_COLUMN_KEYWORDS (Some [])"
  by (simp_all add: cell_has_keyword_def TARGET_COLUMN_KEYWORDS_def cell_metric_def
      cell_metric_dated_def cell_subject_def cell_value_def cell_oct3_def)

lemma row_keyword_cells:
  "cell_has_keyword TARGET_ROW_KEYWORDS (Some cell_subject)"
  "\<not> cell_has_keyword TARGET_ROW_KEYWORDS (Some cell_metric)"
  "\<not> cell_has_keyword TARGET_ROW_KEYWORDS (Some cell_metric_dated)"
  "\<not> cell_has_keyword TARGET_ROW_KEYWORDS (Some cell_value)"
  "\<not> cell_has_keyword TARGET_ROW_KEYWORDS (Some cell_oct3)"
  "\<not> cell_has_keyword TARGET_ROW_KEYWORDS (Some [c])"
  "\<not> cell_has_keyword TARGET_ROW_KEYWORDS (Some [])"
  by (simp_all add: cell_has_keyword_def TARGET_ROW_KEYWORDS_def cell_metric_def
      cell_metric_dated_def cell_subject_def cell_value_def cell_oct3_def)

lemma cell_value_number:
  "clean_numeric_value cell_value = Some (- 1234)" "py_strip cell_value \<noteq> []"
  by (simp_all add: clean_numeric_value_eq cell_value_def py_strip_def digits_value_def char_eval)

lemma cell_subject_number: "clean_numeric_value cell_subject = None"
  by (simp add: clean_numeric_value_eq cell_subject_def char_eval)

lemma cell_five_number: "clean_numeric_value [53] = Some 5" "py_strip [53] \<noteq> []"
  by (simp_all add: clean_numeric_value_eq py_strip_def digits_value_def char_eval)

lemma scenario_rows:
  "header_rows_spec scenario_grid = [0]" "data_row_spec scenario_grid = Some 1"
  "metric_columns (scenario_grid ! 0) = [1]"
  by (simp_all add: header_rows_spec_def data_row_spec_def metric_columns_def scenario_grid_def
      row_has_keyword_def column_keyword_cells row_keyword_cells upt_rec)

lemma scenario_dates:
  "date_at scenario_grid (Suc 0) 2024 0 = None" "date_at scenario_grid (Suc 0) 2024 1 = None"
  "date_at scenario_grid (Suc 0) 2024 (- 1) = None"
  "date_at scenario_grid (Suc 0) 2024 2 = Some [50, 48, 50, 52, 45, 49, 48, 45, 48, 51]"
  by (simp_all add: date_at_def date_in_row_def scenario_grid_def cell_metric_date
      cell_value_date cell_oct3_date example_cells_nonempty)

lemma scenario_cascade:
  "extract_forecast_date_universal scenario_grid 0 (Suc 0) scenario_doc =
     Inr (Some [50, 48, 50, 52, 45, 49, 48, 45, 48, 51])"
  by (simp add: cascade_refines_spec scenario_doc_date cascade_spec_def cascade_rows_def
      scenario_dates)

lemma scenario_try_column:
  "try_column scenario_grid scenario_doc 0 (scenario_grid ! Suc 0) (Suc 0) =
     Inr (Some (- 1234, [50, 48, 50, 52, 45, 49, 48, 45, 48, 51]))"
proof -
  have r: "scenario_grid ! Suc 0 = [Some cell_subject, Some cell_value, Some [122]]"
    by (simp add: scenario_grid_def)
  show ?thesis
    by (simp add: try_column_def r scenario_cascade cell_value_number)
qed

lemma scenario_locator:
  "locator_spec scenario_grid scenario_doc =
     Inr (Some (- 1234, [50, 48, 50, 52, 45, 49, 48, 45, 48, 51]))"
  by (simp add: locator_spec_def scenario_rows scan_columns_all_metric_columns
      all_metric_columns_def scenario_try_column)

text \<open>
  C5. For every grid the locator takes as header candidates every row among the first 40
  that has a cell with a column keyword, takes as data row the first row of the whole grid
  that has a cell with a row keyword, gives nothing when there is no such row, and tries
  only the header candidates whose index is below the data row's.
\<close>

theorem locator_rows:
  "header_candidates table = map (\<lambda>i. (i, table ! i)) (header_rows_spec table) \<and>
   find_target_row (List.enumerate 0 table) = map_option (\<lambda>i. (i, table ! i)) (data_row_spec table) \<and>
   search_table table pdf =
     (case data_row_spec table of
        None \<Rightarrow> Inr None
      | Some d \<Rightarrow>
          first_result
            (map (\<lambda>h. scan_columns table pdf h (table ! d) (List.enumerate 0 (table ! h)))
               (filter (\<lambda>h. h < d) (header_rows_spec table))))"
  using search_table_refines_spec [of table pdf]
  by (simp add: header_candidates_spec find_target_row_spec locator_spec_def)

theorem locator_rows_witness:
  "header_candidates scenario_grid = [(0, scenario_grid ! 0)] \<and>
   find_target_row (List.enumerate 0 scenario_grid) = Some (1, scenario_grid ! 1) \<and>
   search_table scenario_grid scenario_doc =
     Inr (Some (- 1234, [50, 48, 50, 52, 45, 49, 48, 45, 48, 51]))"
  using locator_rows [of scenario_grid scenario_doc] scenario_locator
  by (simp add: scenario_rows locator_spec_def)

section \<open>The columns of a header row\<close>

lemma two_column_header_date:
  "extract_date_from_cell cell_metric_dated 2024 =
     Some [50, 48, 50, 52, 45, 49, 48, 45, 48, 51]"
  by (simp add: extract_date_from_cell_def date_pattern_def cell_metric_dated_def char_eval
      date_eval)

lemma two_column_rows:
  "header_rows_spec two_column_grid = [0]" "data_row_spec two_column_grid = Some 1"
  "metric_columns (two_column_grid ! 0) = [0, 1]"
  by (simp_all add: header_rows_spec_def data_row_spec_def metric_columns_def two_column_grid_def
      row_has_keyword_def column_keyword_cells row_keyword_cells upt_rec)

lemma two_column_cascade:
  "extract_forecast_date_universal two_column_grid 0 (Suc 0) two_column_doc =
     Inr (Some [50, 48, 50, 52, 45, 49, 48, 45, 48, 51])"
proof -
  have "date_at two_column_grid (Suc 0) 2024 0 = Some [50, 48, 50, 52, 45, 49, 48, 45, 48, 51]"
    by (simp add: date_at_def date_in_row_def two_column_grid_def two_column_header_date
        example_cells_nonempty)
  then show ?thesis
    by (simp add: cascade_refines_spec two_column_doc_date cascade_spec_def cascade_rows_def)
qed

lemma two_column_try_column:
  "try_column two_column_grid two_column_doc 0 (two_column_grid ! Suc 0) 0 = Inr None"
  "try_column two_column_grid two_column_doc 0 (two_column_grid ! Suc 0) (Suc 0) =
     Inr (Some (5, [50, 48, 50, 52, 45, 49, 48, 45, 48, 51]))"
proof -
  have r: "two_column_grid ! Suc 0 = [Some cell_subject, Some [53]]"
    by (simp add: two_column_grid_def)
  have ne: "py_strip cell_subject \<noteq> []"
    by (simp add: cell_subject_def py_strip_def char_eval)
  show "try_column two_column_grid two_column_doc 0 (two_column_grid ! Suc 0) 0 = Inr None"
    by (simp add: try_column_def r cell_subject_number ne)
  show "try_column two_column_grid two_column_doc 0 (two_column_grid ! Suc 0) (Suc 0) =
          Inr (Some (5, [50, 48, 50, 52, 45, 49, 48, 45, 48, 51]))"
    by (simp add: try_column_def r two_column_cascade cell_five_number)
qed

lemma two_column_scan:
  "scan_columns two_column_grid two_column_doc 0 (two_column_grid ! Suc 0)
     (List.enumerate 0 (two_column_grid ! 0)) =
     Inr (Some (5, [50, 48, 50, 52, 45, 49, 48, 45, 48, 51]))"
  by (simp add: scan_columns_all_metric_columns all_metric_columns_def two_column_rows
      two_column_try_column)

lemma find_via_locator_spec:
  assumes "first_page_of pdf = Inr p" and "extract_tables p = [table]"
  shows "find_fiscal_forecast_value pdf =
     (case locator_spec table pdf of
        Inl e \<Rightarrow> Inl e
      | Inr (Some (v, date_str)) \<Rightarrow> Inr (Some v, Some date_str)
      | Inr None \<Rightarrow> Inr (None, None))"
  using assms
  by (simp add: find_fiscal_forecast_value_def search_table_refines_spec
      split: sum.splits option.splits)

lemma example_first_pages:
  "first_page_of scenario_doc = Inr \<lparr>extract_text = text_2024_10_01, extract_tables = [scenario_grid]\<rparr>"
  "first_page_of undated_doc = Inr \<lparr>extract_text = text_2024_10_01, extract_tables = [undated_grid]\<rparr>"
  "first_page_of two_column_doc = Inr \<lparr>extract_text = text_2024_10_01, extract_tables = [two_column_grid]\<rparr>"
  "first_page_of Unreadable = Inl OpenError"
  by (simp_all add: first_page_of_def pdfplumber_open_def scenario_doc_def undated_doc_def
      two_column_doc_def)

lemma two_column_find:
  "find_fiscal_forecast_value two_column_doc =
     Inr (Some 5, Some [50, 48, 50, 52, 45, 49, 48, 45, 48, 51])"
proof -
  have "locator_spec two_column_grid two_column_doc =
          Inr (Some (5, [50, 48, 50, 52, 45, 49, 48, 45, 48, 51]))"
    by (simp add: locator_spec_def two_column_rows two_column_scan)
  then show ?thesis
    using find_via_locator_spec [OF example_first_pages(3), of two_column_grid]
    by simp
qed

text \<open>
  C4, as the code has it. For a header candidate above the data row the locator scans the
  header row from left to right and, at every cell that has a column keyword, reads the
  data-row cell at that column; it goes on to the next such column of the same header row
  while the cell read is missing, blank or not numeric or no date resolves, and leaves the
  header row only when its columns are exhausted.
\<close>

theorem header_row_tries_every_metric_column:
  "scan_columns table pdf h target_row (List.enumerate 0 header_row) =
     first_result
       (map (try_column table pdf h target_row)
          (filter (\<lambda>col_idx. cell_has_keyword TARGET_COLUMN_KEYWORDS (header_row ! col_idx))
             [0..<length header_row]))"
  using scan_columns_all_metric_columns [of table pdf h target_row header_row]
  by (simp add: all_metric_columns_def metric_columns_def)

theorem header_row_tries_every_metric_column_witness:
  "try_column two_column_grid two_column_doc 0 (two_column_grid ! Suc 0) 0 = Inr None \<and>
   scan_columns two_column_grid two_column_doc 0 (two_column_grid ! Suc 0)
     (List.enumerate 0 (two_column_grid ! 0)) =
     Inr (Some (5, [50, 48, 50, 52, 45, 49, 48, 45, 48, 51]))"
proof -
  have cols: "filter (\<lambda>col_idx. cell_has_keyword TARGET_COLUMN_KEYWORDS (two_column_grid ! 0 ! col_idx))
                [0..<length (two_column_grid ! 0)] = [0, Suc 0]"
    using two_column_rows(3) by (simp add: metric_columns_def)
  show ?thesis
    using header_row_tries_every_metric_column
            [of two_column_grid two_column_doc 0 "two_column_grid ! Suc 0" "two_column_grid ! 0"]
    by (simp add: cols two_column_try_column)
qed

text \<open>
  The claim as stated fails on a header row with two cells that have a column keyword: the
  data-row cell under the first is not a number, and the locator returns the value read
  under the second, where reading the first such column alone gives nothing.
\<close>

theorem first_metric_column_only_counterexample:
  "metric_columns (two_column_grid ! 0) = [0, 1] \<and>
   first_metric_column_only two_column_grid two_column_doc 0 (two_column_grid ! Suc 0)
     (two_column_grid ! 0) = Inr None \<and>
   scan_columns two_column_grid two_column_doc 0 (two_column_grid ! Suc 0)
     (List.enumerate 0 (two_column_grid ! 0)) =
     Inr (Some (5, [50, 48, 50, 52, 45, 49, 48, 45, 48, 51])) \<and>
   find_fiscal_forecast_value two_column_doc =
     Inr (Some 5, Some [50, 48, 50, 52, 45, 49, 48, 45, 48, 51])"
  by (simp add: first_metric_column_only_def two_column_rows two_column_try_column
      two_column_scan two_column_find)

section \<open>Results and the missing date\<close>

lemma try_column_no_date:
  "extract_forecast_date_universal table h c pdf = Inr None \<Longrightarrow>
   try_column table pdf h target_row c = Inr None"
  by (simp add: try_column_def split: option.splits)

lemma scan_columns_no_date:
  "(\<And>c. extract_forecast_date_universal table h c pdf = Inr None) \<Longrightarrow>
   scan_columns table pdf h target_row cols = Inr None"
  by (induction cols) (auto simp: try_column_no_date)

lemma scan_headers_no_date:
  "(\<And>h c. extract_forecast_date_universal table h c pdf = Inr None) \<Longrightarrow>
   scan_headers table pdf d target_row hs = Inr None"
  by (induction hs) (auto simp: scan_columns_no_date)

lemma search_table_no_date:
  "(\<And>h c. extract_forecast_date_universal table h c pdf = Inr None) \<Longrightarrow>
   search_table table pdf = Inr None"
  by (simp add: search_table_def scan_headers_no_date split: option.splits)

lemma search_tables_no_date:
  "(\<forall>table \<in> set tables. \<forall>h c. extract_forecast_date_universal table h c pdf = Inr None) \<Longrightarrow>
   search_tables tables pdf = Inr None"
  by (induction tables) (simp_all add: search_table_no_date)

lemma find_no_date:
  assumes "first_page_of pdf = Inr p"
    and "\<forall>table \<in> set (extract_tables p). \<forall>h c.
           extract_forecast_date_universal table h c pdf = Inr None"
  shows "find_fiscal_forecast_value pdf = Inr (None, None)"
  using assms by (simp add: find_fiscal_forecast_value_def search_tables_no_date)

lemma create_of_find:
  "create_mapped_data pdf =
     (case find_fiscal_forecast_value pdf of
        Inl e \<Rightarrow> Inl e
      | Inr (Some v, Some d) \<Rightarrow> Inr (Some [(HEADER_1, PyStr d), (HEADER_2, PyInt v)])
      | Inr _ \<Rightarrow> Inr None)"
  by (simp add: create_mapped_data_def split: sum.splits option.splits prod.splits)

lemma date_in_row_None:
  "(\<forall>s. Some s \<in> set r \<longrightarrow> extract_date_from_cell s y = None) \<Longrightarrow> date_in_row r c y = None"
  by (auto simp: date_in_row_def split: option.splits dest!: nth_mem)

lemma date_at_None:
  assumes "\<forall>r \<in> set table. \<forall>s. Some s \<in> set r \<longrightarrow> extract_date_from_cell s y = None"
  shows "date_at table c y i = None"
proof (cases "0 \<le> i \<and> i < int (length table)")
  case True
  then have "table ! nat i \<in> set table"
    by (intro nth_mem) linarith
  with assms have "date_in_row (table ! nat i) c y = None"
    by (intro date_in_row_None) blast
  with True show ?thesis by (simp add: date_at_def)
next
  case False
  then show ?thesis by (auto simp: date_at_def)
qed

lemma undated_no_cascade:
  "extract_forecast_date_universal undated_grid h c undated_doc = Inr None"
proof -
  have cells: "\<forall>r \<in> set undated_grid. \<forall>s. Some s \<in> set r \<longrightarrow> extract_date_from_cell s 2024 = None"
    by (auto simp: undated_grid_def cell_metric_date cell_subject_date cell_value_date
        cell_letter_date)
  have "cascade_spec undated_grid h c 2024 = None"
    unfolding cascade_spec_def
    by (rule first_some_all_None) (rule date_at_None [OF cells])
  then show ?thesis
    by (simp add: cascade_refines_spec undated_doc_date)
qed

lemma undated_find: "find_fiscal_forecast_value undated_doc = Inr (None, None)"
  by (rule find_no_date [OF example_first_pages(2)]) (simp add: undated_no_cascade)

lemma undated_create: "create_mapped_data undated_doc = Inr None"
  by (simp add: create_of_find undated_find)


lemma scenario_find:
  "find_fiscal_forecast_value scenario_doc =
     Inr (Some (- 1234), Some [50, 48, 50, 52, 45, 49, 48, 45, 48, 51])"
  using find_via_locator_spec [OF example_first_pages(1), of scenario_grid]
  by (simp add: scenario_locator)

lemma scenario_create: "create_mapped_data scenario_doc = Inr (Some scenario_record)"
  by (simp add: create_of_find scenario_find scenario_record_def)

lemma headers_distinct: "HEADER_1 \<noteq> HEADER_2"
  by (simp add: HEADER_1_def HEADER_2_def ascii_def)




text \<open>
  C8. A document gives either a record in which both the date and the integer value are
  present, or no record: the locator returns both components or neither, and
  \<open>create_mapped_data\<close> returns \<open>None\<close> or a dictionary that maps the first label to a
  date string and the second to an integer.
\<close>

theorem record_has_both_fields:
  "(find_fiscal_forecast_value pdf = Inr (v, d) \<longrightarrow> (v = None \<longleftrightarrow> d = None)) \<and>
   (create_mapped_data pdf = Inr (Some data) \<longrightarrow>
      (\<exists>date_str n. data = [(HEADER_1, PyStr date_str), (HEADER_2, PyInt n)] \<and>
         map_of data HEADER_1 = Some (PyStr date_str) \<and>
         map_of data HEADER_2 = Some (PyInt n)))"
proof -
  have a: "find_fiscal_forecast_value pdf = Inr (v, d) \<longrightarrow> (v = None \<longleftrightarrow> d = None)"
    by (auto simp: find_fiscal_forecast_value_def split: sum.splits option.splits)
  have b: "create_mapped_data pdf = Inr (Some data) \<longrightarrow>
      (\<exists>date_str n. data = [(HEADER_1, PyStr date_str), (HEADER_2, PyInt n)] \<and>
         map_of data HEADER_1 = Some (PyStr date_str) \<and>
         map_of data HEADER_2 = Some (PyInt n))"
    using headers_distinct
    by (auto simp: create_mapped_data_def split: sum.splits option.splits)
  from a b show ?thesis by blast
qed

theorem record_has_both_fields_witness:
  "create_mapped_data scenario_doc = Inr (Some scenario_record) \<and>
   (\<exists>date_str n. scenario_record = [(HEADER_1, PyStr date_str), (HEADER_2, PyInt n)] \<and>
      map_of scenario_record HEADER_1 = Some (PyStr date_str) \<and>
      map_of scenario_record HEADER_2 = Some (PyInt n)) \<and>
   create_mapped_data undated_doc = Inr None"
  using record_has_both_fields [of scenario_doc "Some (- 1234)"
          "Some [50, 48, 50, 52, 45, 49, 48, 45, 48, 51]" scenario_record]
    scenario_create scenario_find undated_create
  by simp

section \<open>Properties of batch processing\<close>

lemma first_error_Cons:
  "first_error (Inl e # os) = Some e" "first_error (Inr r # os) = first_error os"
  by (simp_all add: first_error_def)

lemma data_of_Cons:
  "data_of (Inr (Some d) # os) = d # data_of os" "data_of (Inr None # os) = data_of os"
  "data_of (Inl e # os) = data_of os" "data_of [] = []"
  by (simp_all add: data_of_def)

lemma batch_loop_spec:
  "batch_loop pdf_folder names acc =
     (case first_error (outcomes pdf_folder names) of
        Some e \<Rightarrow> Inl e
      | None \<Rightarrow> Inr (acc @ data_of (outcomes pdf_folder names)))"
proof (induction names arbitrary: acc)
  case Nil
  then show ?case by (simp add: outcomes_def first_error_def data_of_def)
next
  case (Cons n names)
  have o: "outcomes pdf_folder (n # names) =
             create_mapped_data (open_path pdf_folder n) # outcomes pdf_folder names"
    by (simp add: outcomes_def)
  show ?case
  proof (cases "create_mapped_data (open_path pdf_folder n)")
    case (Inl e)
    then show ?thesis by (simp add: o first_error_Cons)
  next
    case (Inr r)
    then show ?thesis
      by (cases r) (simp_all add: o first_error_Cons data_of_Cons Cons.IH split: option.splits)
  qed
qed

subsection \<open>The characters of a date string\<close>

lemma show_nat_chars: "c \<in> set (show_nat n) \<Longrightarrow> 48 \<le> c \<and> c \<le> 57"
proof (induction n rule: show_nat.induct)
  case (1 n)
  show ?case
  proof (cases "n < 10")
    case True
    with "1.prems" show ?thesis by (simp add: show_nat.simps [of n])
  next
    case False
    with 1 show ?thesis by (auto simp: show_nat.simps [of n])
  qed
qed

lemma show_nat_no_newline: "NEWLINE \<notin> set (show_nat n)"
  using show_nat_chars [of NEWLINE n] by (auto simp: NEWLINE_def)

lemma show_int_no_newline: "NEWLINE \<notin> set (show_int i)"
  by (simp add: show_int_def show_nat_no_newline) (simp add: NEWLINE_def MINUS_def)

lemma zero_pad_no_newline: "NEWLINE \<notin> set s \<Longrightarrow> NEWLINE \<notin> set (zero_pad w s)"
  by (auto simp: zero_pad_def NEWLINE_def)

lemma strftime_no_newline: "NEWLINE \<notin> set (strftime_Ymd dt)"
proof -
  have "NEWLINE \<noteq> HYPHEN" by (simp add: NEWLINE_def HYPHEN_def)
  then show ?thesis
    by (simp add: strftime_Ymd_def zero_pad_no_newline show_nat_no_newline)
qed

lemma cell_date_no_newline: "extract_date_from_cell s y = Some d \<Longrightarrow> NEWLINE \<notin> set d"
  by (auto simp: extract_date_from_cell_def Let_def strftime_no_newline
      split: if_splits option.splits list.splits sum.splits)

lemma date_at_no_newline: "date_at table c y i = Some d \<Longrightarrow> NEWLINE \<notin> set d"
  by (auto simp: date_at_def date_in_row_def cell_date_no_newline
      split: if_splits option.splits)

lemma first_some_SomeD: "first_some (map f xs) = Some d \<Longrightarrow> \<exists>x \<in> set xs. f x = Some d"
  by (induction xs) (auto split: option.splits)

lemma cascade_no_newline:
  "extract_forecast_date_universal table h c pdf = Inr (Some d) \<Longrightarrow> NEWLINE \<notin> set d"
  by (auto simp: cascade_refines_spec cascade_spec_def
      split: sum.splits option.splits dest!: first_some_SomeD dest: date_at_no_newline)

lemma try_column_no_newline:
  "try_column table pdf h target_row c = Inr (Some (v, d)) \<Longrightarrow> NEWLINE \<notin> set d"
  by (auto simp: try_column_def split: if_splits option.splits sum.splits
      dest: cascade_no_newline)

lemma scan_columns_no_newline:
  "scan_columns table pdf h target_row cols = Inr (Some (v, d)) \<Longrightarrow> NEWLINE \<notin> set d"
  by (induction cols) (auto split: if_splits option.splits sum.splits dest: try_column_no_newline)

lemma scan_headers_no_newline:
  "scan_headers table pdf i target_row hs = Inr (Some (v, d)) \<Longrightarrow> NEWLINE \<notin> set d"
  by (induction hs) (auto split: if_splits option.splits sum.splits dest: scan_columns_no_newline)

lemma search_table_no_newline:
  "search_table table pdf = Inr (Some (v, d)) \<Longrightarrow> NEWLINE \<notin> set d"
  by (auto simp: search_table_def split: if_splits option.splits dest: scan_headers_no_newline)

lemma search_tables_no_newline:
  "search_tables tables pdf = Inr (Some (v, d)) \<Longrightarrow> NEWLINE \<notin> set d"
  by (induction tables) (auto split: option.splits sum.splits dest: search_table_no_newline)

lemma create_mapped_data_record:
  assumes "create_mapped_data pdf = Inr (Some data)"
  shows "\<exists>r. data = record_of r \<and> NEWLINE \<notin> set (fst r)"
proof -
  from assms obtain v d where f: "find_fiscal_forecast_value pdf = Inr (Some v, Some d)"
    and data: "data = [(HEADER_1, PyStr d), (HEADER_2, PyInt v)]"
    by (auto simp: create_of_find split: sum.splits option.splits prod.splits)
  from f have "NEWLINE \<notin> set d"
    by (auto simp: find_fiscal_forecast_value_def split: sum.splits option.splits
        dest: search_tables_no_newline)
  with data have "data = record_of (d, v) \<and> NEWLINE \<notin> set (fst (d, v))"
    by (simp add: record_of_def)
  then show ?thesis by blast
qed

lemma data_of_outcomes_records:
  "\<exists>rows. data_of (outcomes pdf_folder names) = map record_of rows \<and>
          (\<forall>r \<in> set rows. NEWLINE \<notin> set (fst r))"
proof (induction names)
  case Nil
  then show ?case by (simp add: outcomes_def data_of_def)
next
  case (Cons n names)
  then obtain rows where rows: "data_of (outcomes pdf_folder names) = map record_of rows"
    "\<forall>r \<in> set rows. NEWLINE \<notin> set (fst r)" by blast
  have o: "outcomes pdf_folder (n # names) =
             create_mapped_data (open_path pdf_folder n) # outcomes pdf_folder names"
    by (simp add: outcomes_def)
  show ?case
  proof (cases "create_mapped_data (open_path pdf_folder n)")
    case (Inl e)
    with rows show ?thesis by (auto simp: o data_of_Cons)
  next
    case (Inr x)
    show ?thesis
    proof (cases x)
      case None
      with Inr rows show ?thesis by (auto simp: o data_of_Cons)
    next
      case (Some data)
      with Inr create_mapped_data_record obtain r where
        r: "data = record_of r" "NEWLINE \<notin> set (fst r)" by blast
      have "data_of (outcomes pdf_folder (n # names)) = map record_of (r # rows)"
        using Inr Some r rows by (simp add: o data_of_Cons)
      moreover have "\<forall>q \<in> set (r # rows). NEWLINE \<notin> set (fst q)"
        using r rows by simp
      ultimately show ?thesis by blast
    qed
  qed
qed

subsection \<open>The file written\<close>

lemma write_rows_records:
  "write_rows f (map record_of rows) = Inr (f @ concat (map data_line rows))"
proof (induction rows arbitrary: f)
  case Nil
  then show ?case by simp
next
  case (Cons r rows)
  have "map_of (record_of r) HEADER_1 = Some (PyStr (fst r))"
    "map_of (record_of r) HEADER_2 = Some (PyInt (snd r))"
    using headers_distinct by (auto simp: record_of_def)
  then show ?case
    by (simp add: Cons.IH data_line_def py_format_def)
qed

lemma save_custom_csv_records:
  "save_custom_csv (map record_of rows) = Inr (label_lines @ concat (map data_line rows))"
  by (simp add: save_custom_csv_def write_rows_records label_lines_def)

lemma label_lines_count: "count_list label_lines NEWLINE = 2"
proof -
  have "NEWLINE \<notin> set HEADER_1" "NEWLINE \<notin> set HEADER_2"
    by (simp_all add: HEADER_1_def HEADER_2_def ascii_def NEWLINE_def)
  then show ?thesis
    by (simp add: label_lines_def) (simp add: COMMA_def NEWLINE_def)
qed

lemma data_lines_count:
  "(\<forall>r \<in> set rows. NEWLINE \<notin> set (fst r)) \<Longrightarrow>
   count_list (concat (map data_line rows)) NEWLINE = length rows"
proof (induction rows)
  case Nil
  then show ?case by simp
next
  case (Cons r rows)
  have "count_list (data_line r) NEWLINE = 1"
    using Cons.prems show_int_no_newline [of "snd r"]
    by (simp add: data_line_def) (simp add: COMMA_def NEWLINE_def)
  with Cons show ?case by simp
qed

lemma process_multiple_pdfs_spec:
  "process_multiple_pdfs pdf_folder output_csv =
     (case first_error (outcomes pdf_folder (pdf_files pdf_folder)) of
        Some e \<Rightarrow> Inl e
      | None \<Rightarrow>
          (let df = data_of (outcomes pdf_folder (pdf_files pdf_folder))
           in case output_csv of
                None \<Rightarrow> Inr (df, None)
              | Some path \<Rightarrow>
                  if df = [] \<or> path = [] then Inr (df, None)
                  else (case save_custom_csv df of
                          Inl e \<Rightarrow> Inl e
                        | Inr content \<Rightarrow> Inr (df, Some (path, content)))))"
  by (simp add: process_multiple_pdfs_def batch_loop_spec Let_def split: option.splits)

subsection \<open>The example batches\<close>

lemma example_pdf_files:
  "pdf_files mixed_folder = [name_a, name_b]" "pdf_files broken_folder = [name_a, name_b]"
  by (simp_all add: pdf_files_def mixed_folder_def broken_folder_def name_a_def name_b_def
      ends_with_def ascii_def)

lemma example_open_paths:
  "open_path mixed_folder name_a = scenario_doc" "open_path mixed_folder name_b = undated_doc"
  "open_path broken_folder name_a = scenario_doc" "open_path broken_folder name_b = Unreadable"
  by (simp_all add: open_path_def mixed_folder_def broken_folder_def name_a_def name_b_def)

lemma unreadable_create: "create_mapped_data Unreadable = Inl OpenError"
  by (simp add: create_of_find find_fiscal_forecast_value_def example_first_pages)

lemma example_outcomes:
  "outcomes mixed_folder (pdf_files mixed_folder) = [Inr (Some scenario_record), Inr None]"
  "outcomes broken_folder (pdf_files broken_folder) = [Inr (Some scenario_record), Inl OpenError]"
  by (simp_all add: outcomes_def example_pdf_files example_open_paths scenario_create
      undated_create unreadable_create)

lemma scenario_record_of:
  "scenario_record = record_of ([50, 48, 50, 52, 45, 49, 48, 45, 48, 51], - 1234)"
  by (simp add: scenario_record_def record_of_def)

text \<open>
  C7, as the code has it. A document for which the extraction returns nothing is left out
  and the batch goes on with the next document. An exception raised while a document is
  processed, such as the failure to open a missing or corrupt file, is not caught at the
  document boundary: the first document that raises ends the batch with that exception,
  and nothing is returned or written, not even for the documents already processed.
\<close>

theorem batch_stops_at_first_exception:
  "create_mapped_data Unreadable = Inl OpenError \<and>
   (case first_error (outcomes pdf_folder (pdf_files pdf_folder)) of
      Some e \<Rightarrow> process_multiple_pdfs pdf_folder output_csv = Inl e
    | None \<Rightarrow>
        \<exists>written. process_multiple_pdfs pdf_folder output_csv =
          Inr (data_of (outcomes pdf_folder (pdf_files pdf_folder)), written))"
proof -
  obtain rows where rows: "data_of (outcomes pdf_folder (pdf_files pdf_folder)) = map record_of rows"
    using data_of_outcomes_records by blast
  have "case first_error (outcomes pdf_folder (pdf_files pdf_folder)) of
      Some e \<Rightarrow> process_multiple_pdfs pdf_folder output_csv = Inl e
    | None \<Rightarrow>
        \<exists>written. process_multiple_pdfs pdf_folder output_csv =
          Inr (data_of (outcomes pdf_folder (pdf_files pdf_folder)), written)"
    by (simp add: process_multiple_pdfs_spec Let_def rows save_custom_csv_records
        split: option.splits)
  with unreadable_create show ?thesis by blast
qed

theorem batch_stops_at_first_exception_witness:
  "process_multiple_pdfs broken_folder (Some [111]) = Inl OpenError \<and>
   (\<exists>written. process_multiple_pdfs mixed_folder (Some [111]) = Inr ([scenario_record], written))"
proof -
  have a: "process_multiple_pdfs broken_folder (Some [111]) = Inl OpenError"
    using batch_stops_at_first_exception [of broken_folder "Some [111]"]
    by (simp add: example_outcomes first_error_Cons)
  have b: "\<exists>written. process_multiple_pdfs mixed_folder (Some [111]) = Inr ([scenario_record], written)"
    using batch_stops_at_first_exception [of mixed_folder "Some [111]"]
    by (simp add: example_outcomes first_error_Cons data_of_Cons first_error_def)
  from a b show ?thesis by blast
qed

text \<open>
  The claim as stated fails on a folder with a good document and a file that cannot be
  opened: the good document gives its record, the other raises, and the batch ends with
  the exception instead of continuing.
\<close>

theorem unreadable_document_counterexample:
  "pdf_files broken_folder = [name_a, name_b] \<and>
   create_mapped_data (open_path broken_folder name_a) = Inr (Some scenario_record) \<and>
   open_path broken_folder name_b = Unreadable \<and>
   process_multiple_pdfs broken_folder (Some [111]) = Inl OpenError"
proof -
  have "process_multiple_pdfs broken_folder (Some [111]) = Inl OpenError"
    by (simp add: process_multiple_pdfs_spec example_outcomes first_error_Cons)
  then show ?thesis
    by (simp add: example_pdf_files example_open_paths scenario_create)
qed

text \<open>
  C9. The file that a batch writes has this layout: a first line made of a comma and the
  series-identifier label, a second line made of a comma and the series-description label,
  then for each document that gave data, in the order in which the documents were
  processed, one line made of the date, a comma and the integer value; the file has two
  lines more than there are such documents. (A batch in which no document gave data
  writes no file.)
\<close>

theorem csv_layout:
  assumes "process_multiple_pdfs pdf_folder output_csv = Inr (df, Some (path, content))"
  shows "df = data_of (outcomes pdf_folder (pdf_files pdf_folder)) \<and>
         (\<exists>rows. df = map record_of rows \<and> content = label_lines @ concat (map data_line rows)) \<and>
         count_list content NEWLINE = 2 + length df"
proof -
  obtain rows where rows: "data_of (outcomes pdf_folder (pdf_files pdf_folder)) = map record_of rows"
    and nl: "\<forall>r \<in> set rows. NEWLINE \<notin> set (fst r)"
    using data_of_outcomes_records by blast
  from assms have df: "df = data_of (outcomes pdf_folder (pdf_files pdf_folder))"
    and content: "content = label_lines @ concat (map data_line rows)"
    by (auto simp: process_multiple_pdfs_spec Let_def rows save_custom_csv_records
        split: option.splits if_splits)
  have "count_list content NEWLINE = 2 + length rows"
    by (simp add: content label_lines_count data_lines_count [OF nl])
  with df content rows show ?thesis by auto
qed

theorem csv_layout_witness:
  "process_multiple_pdfs mixed_folder (Some [111]) =
     Inr ([scenario_record],
          Some ([111], label_lines @ data_line ([50, 48, 50, 52, 45, 49, 48, 45, 48, 51], - 1234))) \<and>
   count_list (label_lines @ data_line ([50, 48, 50, 52, 45, 49, 48, 45, 48, 51], - 1234)) NEWLINE = 3 \<and>
   data_line ([50, 48, 50, 52, 45, 49, 48, 45, 48, 51], - 1234) =
     [50, 48, 50, 52, 45, 49, 48, 45, 48, 51, 44, 45, 49, 50, 51, 52, 10]"
proof -
  have p: "process_multiple_pdfs mixed_folder (Some [111]) =
     Inr ([scenario_record],
          Some ([111], label_lines @ data_line ([50, 48, 50, 52, 45, 49, 48, 45, 48, 51], - 1234)))"
    using save_custom_csv_records [of "[([50, 48, 50, 52, 45, 49, 48, 45, 48, 51], - 1234)]"]
    by (simp add: process_multiple_pdfs_spec example_outcomes first_error_def data_of_Cons
        scenario_record_of)
  have l: "data_line ([50, 48, 50, 52, 45, 49, 48, 45, 48, 51], - 1234) =
     [50, 48, 50, 52, 45, 49, 48, 45, 48, 51, 44, 45, 49, 50, 51, 52, 10]"
    by (simp add: data_line_def show_int_def show_nat_numeral show_nat_Suc_0 COMMA_def
        NEWLINE_def MINUS_def)
  from csv_layout [OF p] p l show ?thesis by simp
qed

end
